theory Spec2Isabelle
  imports Complex_Main
begin

section \<open>JavaScript values used by the analytics code\<close>

subsection \<open>Dates\<close>

text \<open>
  A JavaScript \<open>Date\<close> is read and written by the source only through its local-time
  fields (\<open>getFullYear\<close>, \<open>getMonth\<close>, \<open>getDate\<close>, \<open>setMonth\<close>, \<open>setDate\<close>,
  \<open>setHours\<close>, \<open>new Date(y, m, d)\<close>) and compared with \<open>>=\<close> and \<open><=\<close>. The model keeps
  a date as its local civil fields: the year, the month (0 is January), the day of the
  month and the milliseconds since local midnight. The local zone is taken to have a fixed
  offset (no daylight-saving shift), so that the order of the time values is the
  lexicographic order of the fields.
\<close>

record date =
  getFullYear :: int
  getMonth :: int
  getDate :: int
  getTimeInDay :: int

definition isLeapYear :: "int \<Rightarrow> bool" where
  "isLeapYear y = ((y mod 4 = 0 \<and> y mod 100 \<noteq> 0) \<or> y mod 400 = 0)"

definition daysInMonth :: "int \<Rightarrow> int \<Rightarrow> int" where
  "daysInMonth y m =
     (if m = 1 then (if isLeapYear y then 29 else 28)
      else if m = 3 \<or> m = 5 \<or> m = 8 \<or> m = 10 then 30
      else 31)"

definition msPerDay :: int where
  "msPerDay = 86400000"

text \<open>
  A clock reading: a date of the Gregorian calendar, not before 1970, with every field
  in range.
\<close>

definition validDate :: "date \<Rightarrow> bool" where
  "validDate d =
     (1970 \<le> getFullYear d \<and> 0 \<le> getMonth d \<and> getMonth d < 12
      \<and> 1 \<le> getDate d \<and> getDate d \<le> daysInMonth (getFullYear d) (getMonth d)
      \<and> 0 \<le> getTimeInDay d \<and> getTimeInDay d < msPerDay)"

text \<open>
  \<open>normDay y m d\<close> is the calendar day that lies \<open>d - 1\<close> days after the first of month
  \<open>m\<close> (in 0..11) of year \<open>y\<close>: a day below 1 moves into the months before, a day beyond
  the length of the month into the months after. This is the day arithmetic of
  ECMAScript's \<open>MakeDay\<close>.
\<close>

function normDay :: "int \<Rightarrow> int \<Rightarrow> int \<Rightarrow> int \<times> int \<times> int" where
  "normDay y m d =
     (if d < 1 then
        normDay (if m = 0 then y - 1 else y) (if m = 0 then 11 else m - 1)
          (d + daysInMonth (if m = 0 then y - 1 else y) (if m = 0 then 11 else m - 1))
      else if daysInMonth y m < d then
        normDay (if m = 11 then y + 1 else y) (if m = 11 then 0 else m + 1)
          (d - daysInMonth y m)
      else (y, m, d))"
  by pat_completeness auto
termination
  by (relation "measure (\<lambda>(y, m, d). if d < 1 then nat (1 - d) + 32 else nat d)")
     (auto simp: daysInMonth_def)

declare normDay.simps [simp del]

definition MakeDay :: "int \<Rightarrow> int \<Rightarrow> int \<Rightarrow> int \<times> int \<times> int" where
  "MakeDay y m d = normDay (y + m div 12) (m mod 12) d"

definition mkDate :: "int \<times> int \<times> int \<Rightarrow> int \<Rightarrow> date" where
  "mkDate ymd t =
     (case ymd of (y, m, d) \<Rightarrow>
        \<lparr>getFullYear = y, getMonth = m, getDate = d, getTimeInDay = t\<rparr>)"

text \<open>
  \<open>new Date(year, month, day)\<close>: local midnight of the given day; a year from 0 to 99
  stands for 1900 + year.
\<close>

definition newDate :: "int \<Rightarrow> int \<Rightarrow> int \<Rightarrow> date" where
  "newDate y m d =
     mkDate (MakeDay (if 0 \<le> y \<and> y \<le> 99 then 1900 + y else y) m d) 0"

definition setMonth :: "date \<Rightarrow> int \<Rightarrow> date" where
  "setMonth dt m = mkDate (MakeDay (getFullYear dt) m (getDate dt)) (getTimeInDay dt)"

definition setDate :: "date \<Rightarrow> int \<Rightarrow> date" where
  "setDate dt d = mkDate (MakeDay (getFullYear dt) (getMonth dt) d) (getTimeInDay dt)"

text \<open>\<open>setHours(0, 0, 0, 0)\<close>\<close>

definition setHoursZero :: "date \<Rightarrow> date" where
  "setHoursZero dt = dt\<lparr>getTimeInDay := 0\<rparr>"

text \<open>The comparison \<open>a <= b\<close> of two dates (by time value).\<close>

definition dateLe :: "date \<Rightarrow> date \<Rightarrow> bool" where
  "dateLe a b =
     (getFullYear a < getFullYear b \<or>
      (getFullYear a = getFullYear b \<and>
       (getMonth a < getMonth b \<or>
        (getMonth a = getMonth b \<and>
         (getDate a < getDate b \<or>
          (getDate a = getDate b \<and> getTimeInDay a \<le> getTimeInDay b))))))"

text \<open>\<open>toLocaleString('default', { month: 'short' })\<close>, in an English locale.\<close>

definition monthShort :: "int \<Rightarrow> string" where
  "monthShort m =
     [''Jan'', ''Feb'', ''Mar'', ''Apr'', ''May'', ''Jun'',
      ''Jul'', ''Aug'', ''Sep'', ''Oct'', ''Nov'', ''Dec''] ! nat (m mod 12)"

subsection \<open>Numbers\<close>

text \<open>
  A JavaScript number is a finite value, an infinity or NaN. Finite values are taken as
  reals: the rounding of doubles is left out, so a quotient that no double represents
  (23 / 80, say) and its rounding by \<open>toFixed\<close> or \<open>Math.round\<close> can differ from
  the code's in the last digit. The results below rest on the values 0, 50 and 100 and on
  quotients of a count by itself, which doubles give exactly. What a division does at a
  zero denominator is kept.
\<close>

datatype jsnum = Fin real | PosInf | NegInf | NaN

fun jsDiv :: "jsnum \<Rightarrow> jsnum \<Rightarrow> jsnum" where
  "jsDiv (Fin a) (Fin b) =
     (if b = 0 then (if a = 0 then NaN else if 0 < a then PosInf else NegInf)
      else Fin (a / b))"
| "jsDiv NaN _ = NaN"
| "jsDiv _ NaN = NaN"
| "jsDiv (Fin a) _ = Fin 0"
| "jsDiv PosInf (Fin b) = (if 0 \<le> b then PosInf else NegInf)"
| "jsDiv NegInf (Fin b) = (if 0 \<le> b then NegInf else PosInf)"
| "jsDiv _ _ = NaN"

fun jsMul :: "jsnum \<Rightarrow> jsnum \<Rightarrow> jsnum" where
  "jsMul (Fin a) (Fin b) = Fin (a * b)"
| "jsMul NaN _ = NaN"
| "jsMul _ NaN = NaN"
| "jsMul PosInf (Fin b) = (if b = 0 then NaN else if 0 < b then PosInf else NegInf)"
| "jsMul NegInf (Fin b) = (if b = 0 then NaN else if 0 < b then NegInf else PosInf)"
| "jsMul (Fin a) PosInf = (if a = 0 then NaN else if 0 < a then PosInf else NegInf)"
| "jsMul (Fin a) NegInf = (if a = 0 then NaN else if 0 < a then NegInf else PosInf)"
| "jsMul PosInf PosInf = PosInf"
| "jsMul NegInf NegInf = PosInf"
| "jsMul _ _ = NegInf"

text \<open>\<open>parseFloat(x.toFixed(n))\<close>: \<open>x\<close> rounded to \<open>n\<close> decimals, halves away from zero.\<close>

definition roundDecimals :: "nat \<Rightarrow> real \<Rightarrow> real" where
  "roundDecimals n x = sgn x * of_int \<lfloor>\<bar>x\<bar> * 10 ^ n + 1 / 2\<rfloor> / 10 ^ n"

fun toFixed :: "nat \<Rightarrow> jsnum \<Rightarrow> jsnum" where
  "toFixed n (Fin x) = Fin (roundDecimals n x)"
| "toFixed n x = x"

text \<open>\<open>Number.prototype.toString\<close> on an integer.\<close>

fun showNat :: "nat \<Rightarrow> string" where
  "showNat n =
     (if n < 10 then [''0123456789'' ! n]
      else showNat (n div 10) @ [''0123456789'' ! (n mod 10)])"

declare showNat.simps [simp del]

definition toString :: "int \<Rightarrow> string" where
  "toString i = (if i < 0 then ''-'' @ showNat (nat (- i)) else showNat (nat i))"

section \<open>The Period Bucketizer: \<open>getSalesByPeriod\<close> of sales-by-period.tsx\<close>

text \<open>The fields of a deal that the reports read.\<close>

record deal =
  dealStage :: string
  dealValue :: "real option"
  dealCreatedAt :: "date option"

record PeriodData =
  pname :: string
  startDate :: date
  endDate :: date
  pvalue :: real
  pcount :: nat

record SalesPoint =
  pointName :: string
  pointValue :: real
  pointCount :: nat

datatype error = InvalidArgument

text \<open>The bodies of the four generating loops, for the loop index \<open>i\<close>.\<close>

definition weeklyPeriod :: "date \<Rightarrow> int \<Rightarrow> PeriodData" where
  "weeklyPeriod now i =
     (let start = setDate now (getDate now - (i * 7 + 7));
          end = setDate now (getDate now - i * 7)
      in \<lparr>pname = ''Week '' @ toString (8 - i), startDate = start, endDate = end,
          pvalue = 0, pcount = 0\<rparr>)"

definition monthlyPeriod :: "date \<Rightarrow> int \<Rightarrow> PeriodData" where
  "monthlyPeriod now i =
     (let month = setMonth now (getMonth now - i);
          monthName = monthShort (getMonth month)
      in \<lparr>pname = monthName,
          startDate = newDate (getFullYear month) (getMonth month) 1,
          endDate = newDate (getFullYear month) (getMonth month + 1) 0,
          pvalue = 0, pcount = 0\<rparr>)"

definition quarterlyPeriod :: "date \<Rightarrow> int \<Rightarrow> PeriodData" where
  "quarterlyPeriod now i =
     (let quarter = (getMonth now - i * 3) div 3 + 1;
          year = getFullYear now - (if quarter < 1 then 1 else 0);
          adjustedQuarter = (if quarter < 1 then quarter + 4 else quarter)
      in \<lparr>pname = ''Q'' @ toString adjustedQuarter @ '' '' @ toString year,
          startDate = newDate year ((adjustedQuarter - 1) * 3) 1,
          endDate = newDate year (adjustedQuarter * 3) 0,
          pvalue = 0, pcount = 0\<rparr>)"

definition yearlyPeriod :: "date \<Rightarrow> int \<Rightarrow> PeriodData" where
  "yearlyPeriod now i =
     (let year = getFullYear now - i
      in \<lparr>pname = toString year,
          startDate = newDate year 0 1,
          endDate = newDate year 11 31,
          pvalue = 0, pcount = 0\<rparr>)"

text \<open>
  \<open>for (let i = k; i >= 0; i--) { periods.push(body(i)); }\<close>
\<close>

function pushDown :: "(int \<Rightarrow> 'a) \<Rightarrow> int \<Rightarrow> 'a list \<Rightarrow> 'a list" where
  "pushDown body i periods =
     (if 0 \<le> i then pushDown body (i - 1) (periods @ [body i]) else periods)"
  by pat_completeness auto
termination
  by (relation "measure (\<lambda>(body, i, periods). nat (i + 1))") auto

declare pushDown.simps [simp del]

text \<open>
  The block "Generate periods based on selection". The period is a string at run time;
  a value that is none of the four names takes no branch and leaves \<open>periods\<close> empty.
\<close>

definition generatePeriods :: "string \<Rightarrow> date \<Rightarrow> PeriodData list" where
  "generatePeriods period now =
     (if period = ''weekly'' then pushDown (weeklyPeriod now) 7 []
      else if period = ''monthly'' then pushDown (monthlyPeriod now) 5 []
      else if period = ''quarterly'' then pushDown (quarterlyPeriod now) 3 []
      else if period = ''yearly'' then pushDown (yearlyPeriod now) 4 []
      else [])"

text \<open>The body of \<open>deals.forEach\<close>: one deal is added to every period that contains it.\<close>

definition addDeal :: "deal \<Rightarrow> PeriodData list \<Rightarrow> PeriodData list" where
  "addDeal d periods =
     (case dealCreatedAt d of
        None \<Rightarrow> periods
      | Some dealDate \<Rightarrow>
          map (\<lambda>p. if dateLe (startDate p) dealDate \<and> dateLe dealDate (endDate p)
                   then p\<lparr>pvalue := pvalue p + (case dealValue d of None \<Rightarrow> 0 | Some v \<Rightarrow> v),
                          pcount := pcount p + 1\<rparr>
                   else p) periods)"

definition aggregate :: "deal list \<Rightarrow> PeriodData list \<Rightarrow> PeriodData list" where
  "aggregate deals periods = fold addDeal deals periods"

text \<open>\<open>Math.round(p.value * 100) / 100\<close>\<close>

definition cleanUp :: "PeriodData \<Rightarrow> SalesPoint" where
  "cleanUp p =
     \<lparr>pointName = pname p,
      pointValue = of_int \<lfloor>pvalue p * 100 + 1 / 2\<rfloor> / 100,
      pointCount = pcount p\<rparr>"

text \<open>
  \<open>deals\<close> is \<open>None\<close> while the query has not answered. No path of the function throws:
  every result is \<open>Inr\<close>.
\<close>

definition getSalesByPeriod ::
  "string \<Rightarrow> date \<Rightarrow> deal list option \<Rightarrow> error + SalesPoint list" where
  "getSalesByPeriod period now deals =
     (case deals of
        None \<Rightarrow> Inr []
      | Some ds \<Rightarrow>
          if ds = [] then Inr []
          else Inr (map cleanUp (aggregate ds (generatePeriods period now))))"

section \<open>The Metric Aggregator: storage.ts\<close>

subsection \<open>The entity store and its queries\<close>

record customer =
  custCreatedAt :: date

record task =
  taskDueDate :: "date option"
  taskStatus :: "string option"

record meeting =
  meetStartTime :: date
  meetStatus :: "string option"
  meetCreatedAt :: date

record store =
  customers :: "customer list"
  deals :: "deal list"
  tasks :: "task list"
  meetings :: "meeting list"

text \<open>
  A \<open>where\<close> condition of SQL has three values: a comparison with a null column is
  unknown (\<open>None\<close>), and a row is selected when its condition is true.
\<close>

definition dateLt :: "date \<Rightarrow> date \<Rightarrow> bool" where
  "dateLt a b = (dateLe a b \<and> \<not> dateLe b a)"

definition eq :: "'a option \<Rightarrow> 'a \<Rightarrow> bool option" where
  "eq col v = map_option (\<lambda>x. x = v) col"

definition gte :: "date option \<Rightarrow> date \<Rightarrow> bool option" where
  "gte col d = map_option (\<lambda>x. dateLe d x) col"

definition lte :: "date option \<Rightarrow> date \<Rightarrow> bool option" where
  "lte col d = map_option (\<lambda>x. dateLe x d) col"

definition lt :: "date option \<Rightarrow> date \<Rightarrow> bool option" where
  "lt col d = map_option (\<lambda>x. dateLt x d) col"

definition not :: "bool option \<Rightarrow> bool option" where
  "not c = map_option Not c"

fun and2 :: "bool option \<Rightarrow> bool option \<Rightarrow> bool option" where
  "and2 (Some False) _ = Some False"
| "and2 _ (Some False) = Some False"
| "and2 (Some True) (Some True) = Some True"
| "and2 _ _ = None"

fun or2 :: "bool option \<Rightarrow> bool option \<Rightarrow> bool option" where
  "or2 (Some True) _ = Some True"
| "or2 _ (Some True) = Some True"
| "or2 (Some False) (Some False) = Some False"
| "or2 _ _ = None"

definition andAll :: "bool option list \<Rightarrow> bool option" where
  "andAll cs = foldr and2 cs (Some True)"

definition orAll :: "bool option list \<Rightarrow> bool option" where
  "orAll cs = foldr or2 cs (Some False)"

text \<open>\<open>select count(*) from rows where cond\<close>\<close>

definition countWhere :: "('r \<Rightarrow> bool option) \<Rightarrow> 'r list \<Rightarrow> nat" where
  "countWhere cond rows = length (filter (\<lambda>r. cond r = Some True) rows)"

text \<open>\<open>select COALESCE(sum(value)::float, 0) from deals\<close>: null values are skipped.\<close>

definition sumValue :: "deal list \<Rightarrow> real" where
  "sumValue ds = sum_list (map (\<lambda>d. case dealValue d of None \<Rightarrow> 0 | Some v \<Rightarrow> v) ds)"

subsection \<open>\<open>getDealsByStage\<close>\<close>



subsection \<open>\<open>getDashboardStats\<close>\<close>

record DashboardStats =
  customerCount :: nat
  customerGrowth :: jsnum
  activeDeals :: nat
  dealChange :: jsnum
  upcomingMeetings :: nat
  meetingChange :: jsnum
  tasksDueToday :: nat
  totalTasks :: nat
  taskCompletion :: jsnum
  totalSales :: jsnum
  avgDealSize :: jsnum
  winRate :: jsnum
  customerRetentionRate :: jsnum

text \<open>
  The clock is the sequence of its readings: \<open>clk k\<close> is what the \<open>k\<close>-th
  \<open>new Date()\<close> returns. The function takes the number of readings made so far and
  returns it updated. The store is read as one snapshot. Counts are natural numbers
  (\<open>Number(count) || 0\<close> leaves them as they are); \<open>cnt n\<close> is the count as a number.
\<close>

type_synonym clock = "nat \<Rightarrow> date"

definition cnt :: "nat \<Rightarrow> jsnum" where
  "cnt n = Fin (real n)"

definition jsSub :: "nat \<Rightarrow> nat \<Rightarrow> jsnum" where
  "jsSub a b = Fin (real a - real b)"

definition getDashboardStats :: "clock \<Rightarrow> store \<Rightarrow> nat \<Rightarrow> DashboardStats \<times> nat" where
  "getDashboardStats clk db reads =
     (let customerCountResult = countWhere (\<lambda>c. Some True) (customers db);
          totalSales = sumValue (deals db);
          totalDeals = countWhere (\<lambda>d. Some True) (deals db);
          avgDealSize = (if totalDeals = 0 then Fin 0 else jsDiv (Fin totalSales) (cnt totalDeals));
          wonDeals = countWhere (\<lambda>d. eq (Some (dealStage d)) ''closed_won'') (deals db);
          winRate = (if totalDeals = 0 then Fin 0
                     else jsMul (jsDiv (cnt wonDeals) (cnt totalDeals)) (Fin 100));
          now = clk reads;
          reads = Suc reads;
          firstDayCurrentMonth = newDate (getFullYear now) (getMonth now) 1;
          firstDayPreviousMonth = newDate (getFullYear now) (getMonth now - 1) 1;
          lastDayPreviousMonth = newDate (getFullYear now) (getMonth now) 0;
          currentCount =
            countWhere (\<lambda>c. gte (Some (custCreatedAt c)) firstDayCurrentMonth) (customers db);
          previousCount =
            countWhere (\<lambda>c. and2 (gte (Some (custCreatedAt c)) firstDayPreviousMonth)
                                 (lte (Some (custCreatedAt c)) lastDayPreviousMonth))
              (customers db);
          customerGrowth =
            (if previousCount = 0 then Fin 0
             else jsMul (jsDiv (jsSub currentCount previousCount) (cnt previousCount)) (Fin 100));
          endCustomers = customerCountResult;
          newCustomers = currentCount;
          startingCustomers = jsSub endCustomers newCustomers;
          customerRetentionRate =
            (if startingCustomers = Fin 0 then Fin 0
             else jsMul (jsDiv (jsSub endCustomers newCustomers) startingCustomers) (Fin 100));
          activeDealsResult =
            countWhere (\<lambda>d. orAll [eq (Some (dealStage d)) ''lead'',
                                   eq (Some (dealStage d)) ''qualification'',
                                   eq (Some (dealStage d)) ''proposal'',
                                   eq (Some (dealStage d)) ''negotiation'']) (deals db);
          currentDealCount =
            countWhere (\<lambda>d. gte (dealCreatedAt d) firstDayCurrentMonth) (deals db);
          previousDealCount =
            countWhere (\<lambda>d. and2 (gte (dealCreatedAt d) firstDayPreviousMonth)
                                 (lte (dealCreatedAt d) lastDayPreviousMonth)) (deals db);
          dealChange =
            (if previousDealCount = 0 then Fin 0
             else jsMul (jsDiv (jsSub currentDealCount previousDealCount) (cnt previousDealCount))
                    (Fin 100));
          upcomingMeetingsResult =
            countWhere (\<lambda>m. and2 (gte (Some (meetStartTime m)) now)
                                 (eq (meetStatus m) ''scheduled'')) (meetings db);
          currentMeetingCount =
            countWhere (\<lambda>m. gte (Some (meetCreatedAt m)) firstDayCurrentMonth) (meetings db);
          previousMeetingCount =
            countWhere (\<lambda>m. and2 (gte (Some (meetCreatedAt m)) firstDayPreviousMonth)
                                 (lte (Some (meetCreatedAt m)) lastDayPreviousMonth))
              (meetings db);
          meetingChange =
            (if previousMeetingCount = 0 then Fin 0
             else jsMul (jsDiv (jsSub currentMeetingCount previousMeetingCount)
                           (cnt previousMeetingCount)) (Fin 100));
          todayDate = setHoursZero (clk reads);
          reads = Suc reads;
          tomorrowDate = setDate todayDate (getDate todayDate + 1);
          tasksDueTodayResult =
            countWhere (\<lambda>t. andAll [gte (taskDueDate t) todayDate,
                                    lt (taskDueDate t) tomorrowDate,
                                    not (eq (taskStatus t) ''completed''),
                                    not (eq (taskStatus t) ''cancelled'')]) (tasks db);
          completedTasks = countWhere (\<lambda>t. eq (taskStatus t) ''completed'') (tasks db);
          totalTasks = countWhere (\<lambda>t. Some True) (tasks db);
          taskCompletion =
            (if totalTasks = 0 then Fin 0
             else jsMul (jsDiv (cnt completedTasks) (cnt totalTasks)) (Fin 100))
      in (\<lparr>customerCount = customerCountResult,
           customerGrowth = toFixed 1 customerGrowth,
           activeDeals = activeDealsResult,
           dealChange = toFixed 1 dealChange,
           upcomingMeetings = upcomingMeetingsResult,
           meetingChange = toFixed 1 meetingChange,
           tasksDueToday = tasksDueTodayResult,
           totalTasks = totalTasks,
           taskCompletion = toFixed 1 taskCompletion,
           totalSales = toFixed 2 (Fin totalSales),
           avgDealSize = toFixed 2 avgDealSize,
           winRate = toFixed 1 winRate,
           customerRetentionRate = toFixed 1 customerRetentionRate\<rparr>, reads))"

section \<open>Reference definitions and sample inputs\<close>

subsection \<open>Calendar months\<close>

definition dateAt :: "int \<Rightarrow> int \<Rightarrow> int \<Rightarrow> int \<Rightarrow> date" where
  "dateAt y m d t = \<lparr>getFullYear = y, getMonth = m, getDate = d, getTimeInDay = t\<rparr>"

text \<open>
  The bucket of the calendar month with index \<open>n\<close> (months counted from January of
  year 0): from local midnight of its first day to local midnight of its last day.
\<close>

definition monthBucket :: "int \<Rightarrow> PeriodData" where
  "monthBucket n =
     \<lparr>pname = monthShort (n mod 12),
      startDate = dateAt (n div 12) (n mod 12) 1 0,
      endDate = dateAt (n div 12) (n mod 12) (daysInMonth (n div 12) (n mod 12)) 0,
      pvalue = 0, pcount = 0\<rparr>"

definition firstDayOfCurrentMonth :: "date \<Rightarrow> date" where
  "firstDayOfCurrentMonth now = dateAt (getFullYear now) (getMonth now) 1 0"

text \<open>Whether a date lies in the calendar month before the month of \<open>now\<close>.\<close>

definition inPreviousMonth :: "date \<Rightarrow> date \<Rightarrow> bool" where
  "inPreviousMonth now d =
     (if getMonth now = 0 then getFullYear d = getFullYear now - 1 \<and> getMonth d = 11
      else getFullYear d = getFullYear now \<and> getMonth d = getMonth now - 1)"

subsection \<open>Customer growth as the specification words it\<close>

definition growthPercent :: "nat \<Rightarrow> nat \<Rightarrow> jsnum" where
  "growthPercent current previous =
     (if previous = 0 then Fin 0
      else Fin ((real current - real previous) / real previous * 100))"

text \<open>
  The customers created in the previous month: from its first day through its last day,
  at any time of day.
\<close>

definition createdInPreviousMonth :: "date \<Rightarrow> customer list \<Rightarrow> nat" where
  "createdInPreviousMonth now cs =
     length (filter (\<lambda>c. inPreviousMonth now (custCreatedAt c)) cs)"

text \<open>The customers created in \<open>[firstDayOfCurrentMonth, now)\<close>.\<close>

definition createdInCurrentMonth :: "date \<Rightarrow> customer list \<Rightarrow> nat" where
  "createdInCurrentMonth now cs =
     length (filter (\<lambda>c. dateLe (firstDayOfCurrentMonth now) (custCreatedAt c)
                         \<and> dateLt (custCreatedAt c) now) cs)"

definition specCustomerGrowth :: "date \<Rightarrow> customer list \<Rightarrow> jsnum" where
  "specCustomerGrowth now cs =
     growthPercent (createdInCurrentMonth now cs) (createdInPreviousMonth now cs)"

subsection \<open>Sample inputs\<close>

text \<open>15 March 2024, 31 March 2024 and 10 June 2024, each at noon.\<close>

definition nowMar15 :: date where
  "nowMar15 = dateAt 2024 2 15 43200000"

definition nowMar31 :: date where
  "nowMar31 = dateAt 2024 2 31 43200000"

definition nowJun10 :: date where
  "nowJun10 = dateAt 2024 5 10 43200000"

text \<open>A deal created on 31 January 2024 at noon.\<close>

definition dealJan31 :: deal where
  "dealJan31 =
     \<lparr>dealStage = ''closed_won'', dealValue = Some 100,
      dealCreatedAt = Some (dateAt 2024 0 31 43200000)\<rparr>"

text \<open>A deal created on 3 June 2024 at noon, seven days before \<open>nowJun10\<close> to the millisecond.\<close>

definition dealJun3 :: deal where
  "dealJun3 =
     \<lparr>dealStage = ''lead'', dealValue = Some 50,
      dealCreatedAt = Some (dateAt 2024 5 3 43200000)\<rparr>"

text \<open>A deal created on 31 December 2023 at 09:00.\<close>

definition dealDec31 :: deal where
  "dealDec31 =
     \<lparr>dealStage = ''lead'', dealValue = Some 70,
      dealCreatedAt = Some (dateAt 2023 11 31 32400000)\<rparr>"


text \<open>A store without deals, tasks and meetings, and with one customer.\<close>

definition dbNoDeals :: store where
  "dbNoDeals =
     \<lparr>customers = [\<lparr>custCreatedAt = dateAt 2024 1 10 0\<rparr>],
      deals = [], tasks = [], meetings = []\<rparr>"

text \<open>
  A store with three customers, created on 29 February 2024 at noon (the last day of
  the month before \<open>nowMar15\<close>), on 5 March 2024 and on 12 March 2024.
\<close>

definition dbLastDay :: store where
  "dbLastDay =
     \<lparr>customers = [\<lparr>custCreatedAt = dateAt 2024 1 29 43200000\<rparr>,
                   \<lparr>custCreatedAt = dateAt 2024 2 5 0\<rparr>,
                   \<lparr>custCreatedAt = dateAt 2024 2 12 0\<rparr>],
      deals = [], tasks = [], meetings = []\<rparr>"

text \<open>A store whose two customers were both created in March 2024.\<close>

definition dbMarchOnly :: store where
  "dbMarchOnly =
     \<lparr>customers = [\<lparr>custCreatedAt = dateAt 2024 2 5 0\<rparr>,
                   \<lparr>custCreatedAt = dateAt 2024 2 12 0\<rparr>],
      deals = [], tasks = [], meetings = []\<rparr>"

text \<open>
  A clock whose first reading is one millisecond before midnight of 15 March 2024 and
  whose later readings are one millisecond after that midnight.
\<close>

definition clkMidnight :: clock where
  "clkMidnight k = (if k = 0 then dateAt 2024 2 15 86399999 else dateAt 2024 2 16 1)"

text \<open>A store with one pending task, due on 16 March 2024 at 10:00.\<close>

definition dbTask :: store where
  "dbTask =
     \<lparr>customers = [], deals = [],
      tasks = [\<lparr>taskDueDate = Some (dateAt 2024 2 16 36000000),
                taskStatus = Some ''pending''\<rparr>],
      meetings = []\<rparr>"

section \<open>Auxiliary facts\<close>

lemmas date_eval =
  dateAt_def setMonth_def setDate_def newDate_def MakeDay_def mkDate_def normDay.simps
  daysInMonth_def isLeapYear_def dateLe_def dateLt_def setHoursZero_def validDate_def
  msPerDay_def

lemmas period_eval =
  getSalesByPeriod_def generatePeriods_def pushDown.simps monthlyPeriod_def weeklyPeriod_def
  quarterlyPeriod_def yearlyPeriod_def aggregate_def addDeal_def cleanUp_def
  monthShort_def toString_def showNat.simps

lemmas sql_eval =
  countWhere_def eq_def gte_def lte_def lt_def not_def andAll_def orAll_def sumValue_def
  cnt_def jsSub_def roundDecimals_def

lemma daysInMonth_bounds: "28 \<le> daysInMonth y m \<and> daysInMonth y m \<le> 31"
  by (simp add: daysInMonth_def)

lemma normDay_id: "1 \<le> d \<Longrightarrow> d \<le> daysInMonth y m \<Longrightarrow> normDay y m d = (y, m, d)"
  by (subst normDay.simps) simp

lemma normDay_zero:
  "normDay y m 0 =
     (if m = 0 then y - 1 else y, if m = 0 then 11 else m - 1,
      daysInMonth (if m = 0 then y - 1 else y) (if m = 0 then 11 else m - 1))"
proof -
  have "1 \<le> daysInMonth (if m = 0 then y - 1 else y) (if m = 0 then 11 else m - 1)"
    using daysInMonth_bounds [of "if m = 0 then y - 1 else y" "if m = 0 then 11 else m - 1"]
    by linarith
  then show ?thesis
    by (subst normDay.simps) (simp add: normDay_id)
qed

lemma newDate_first:
  "100 \<le> y \<Longrightarrow> 0 \<le> m \<Longrightarrow> m < 12 \<Longrightarrow> newDate y m 1 = dateAt y m 1 0"
  using daysInMonth_bounds [of y m]
  by (simp add: newDate_def MakeDay_def mkDate_def normDay_id dateAt_def)

lemma newDate_last:
  assumes "100 \<le> y" "0 \<le> m" "m < 12"
  shows "newDate y (m + 1) 0 = dateAt y m (daysInMonth y m) 0"
proof (cases "m = 11")
  case True
  then show ?thesis using assms
    by (simp add: newDate_def MakeDay_def mkDate_def normDay_zero dateAt_def)
next
  case False
  then have "(m + 1) div 12 = 0" "(m + 1) mod 12 = m + 1" using assms by simp_all
  then show ?thesis using assms False
    by (simp add: newDate_def MakeDay_def mkDate_def normDay_zero dateAt_def)
qed

lemma roundDecimals_zero: "roundDecimals n 0 = 0"
  by (simp add: roundDecimals_def)

lemma roundDecimals_hundred: "roundDecimals (Suc 0) 100 = 100"
  by (simp add: roundDecimals_def)

lemma month_index_split:
  "(y * 12 + m - i) div 12 = y + (m - i) div 12 \<and> (y * 12 + m - i) mod 12 = (m - i) mod 12"
  for y m i :: int
proof -
  have e: "y * 12 + m - i = (m - i) + y * 12" by simp
  have "((m - i) + y * 12) div 12 = y + (m - i) div 12"
    by (rule div_mult_self1) simp
  moreover have "((m - i) + y * 12) mod 12 = (m - i) mod 12"
    by (rule mod_mult_self1)
  ultimately show ?thesis by (simp only: e)
qed

lemma aggregate_Nil: "aggregate ds [] = []"
  unfolding aggregate_def
  by (induction ds) (simp_all add: addDeal_def split: option.splits)

lemma pname_addDeal: "map pname (addDeal d ps) = map pname ps"
  by (simp add: addDeal_def split: option.splits)

lemma pname_aggregate: "map pname (aggregate ds ps) = map pname ps"
  unfolding aggregate_def
  by (induction ds arbitrary: ps) (simp_all add: pname_addDeal)

lemma startDate_monthBucket_inj: "inj (\<lambda>n. startDate (monthBucket n))"
proof (rule injI)
  fix a b :: int
  assume "startDate (monthBucket a) = startDate (monthBucket b)"
  then have "a div 12 = b div 12" "a mod 12 = b mod 12"
    by (simp_all add: monthBucket_def dateAt_def)
  then show "a = b"
    by (metis div_mult_mod_eq)
qed

lemma firstDayCurrentMonth_code:
  assumes "validDate now"
  shows "newDate (getFullYear now) (getMonth now) 1 = firstDayOfCurrentMonth now"
  using assms by (simp add: validDate_def newDate_first firstDayOfCurrentMonth_def)

lemma length_filter_all: "(length (filter P xs) = length xs) = list_all P xs"
proof (induction xs)
  case Nil
  show ?case by simp
next
  case (Cons a xs)
  show ?case
  proof (cases "P a")
    case True
    then show ?thesis using Cons by simp
  next
    case False
    have "length (filter P xs) \<noteq> Suc (length xs)"
      using length_filter_le [of P xs] by linarith
    then show ?thesis using False by simp
  qed
qed

lemma pushDown_five: "pushDown body 5 [] = map body [5, 4, 3, 2, 1, 0]"
  by (simp add: pushDown.simps)

lemma monthlyPeriod_early:
  assumes v: "validDate now" and d: "getDate now \<le> 28" and i: "0 \<le> i" "i \<le> 5"
  shows "monthlyPeriod now i = monthBucket (getFullYear now * 12 + getMonth now - i)"
proof -
  let ?Y = "getFullYear now" and ?M = "getMonth now"
  let ?y = "?Y + (?M - i) div 12" and ?m = "(?M - i) mod 12"
  have M: "0 \<le> ?M" "?M < 12" and Y: "1970 \<le> ?Y" and D: "1 \<le> getDate now"
    using v by (simp_all add: validDate_def)
  have "- 1 \<le> (?M - i) div 12" using M i by linarith
  then have y: "100 \<le> ?y" using Y by linarith
  have m: "0 \<le> ?m" "?m < 12" by simp_all
  have "getDate now \<le> daysInMonth ?y ?m"
    using d daysInMonth_bounds [of ?y ?m] by linarith
  then have sm: "setMonth now (?M - i) =
      \<lparr>getFullYear = ?y, getMonth = ?m, getDate = getDate now,
       getTimeInDay = getTimeInDay now\<rparr>"
    using D by (simp add: setMonth_def MakeDay_def mkDate_def normDay_id)
  show ?thesis
    unfolding monthlyPeriod_def monthBucket_def Let_def sm
    by (simp add: month_index_split newDate_first [OF y m] newDate_last [OF y m])
qed



section \<open>The Period Bucketizer\<close>

text \<open>
  C1. In the monthly granularity a deal created on the last day of a month, at any
  time of day, should be counted in the bucket of that month. The code ends the bucket
  at local midnight at the start of that day: with \<open>now\<close> = 15 March 2024, the January
  bucket ends on 31 January at 00:00, and a deal created on 31 January at noon is
  counted in no bucket at all.
\<close>

theorem monthly_last_day_deal_dropped:
  "map endDate (generatePeriods ''monthly'' nowMar15) ! 3 = dateAt 2024 0 31 0
   \<and> getSalesByPeriod ''monthly'' nowMar15 (Some [dealJan31]) =
     Inr [\<lparr>pointName = ''Oct'', pointValue = 0, pointCount = 0\<rparr>,
          \<lparr>pointName = ''Nov'', pointValue = 0, pointCount = 0\<rparr>,
          \<lparr>pointName = ''Dec'', pointValue = 0, pointCount = 0\<rparr>,
          \<lparr>pointName = ''Jan'', pointValue = 0, pointCount = 0\<rparr>,
          \<lparr>pointName = ''Feb'', pointValue = 0, pointCount = 0\<rparr>,
          \<lparr>pointName = ''Mar'', pointValue = 0, pointCount = 0\<rparr>]"
  by (simp add: nowMar15_def dealJan31_def date_eval period_eval)

text \<open>
  C2, as amended. For an empty deal set (and while the deals are not loaded) the result
  is the empty list, whatever the granularity: no bucket is generated, and no error is
  signalled.
\<close>

theorem empty_deals_empty_result:
  "getSalesByPeriod period now (Some []) = Inr []
   \<and> getSalesByPeriod period now None = Inr []"
  by (simp add: getSalesByPeriod_def)

text \<open>
  C2 as stated fails: for the monthly granularity, six buckets are generated from
  \<open>now\<close>, and the result for an empty deal set is not that sequence with zero values.
\<close>

theorem empty_deals_counterexample:
  "getSalesByPeriod ''monthly'' nowMar15 (Some []) \<noteq>
     Inr (map cleanUp (generatePeriods ''monthly'' nowMar15))"
  by (simp add: getSalesByPeriod_def generatePeriods_def pushDown.simps)

text \<open>
  C3, as amended. For a granularity that is none of the four names, no bucket is
  generated and the result is the empty list; no error is signalled.
\<close>

theorem unknown_period_empty_result:
  "period \<noteq> ''weekly'' \<Longrightarrow> period \<noteq> ''monthly'' \<Longrightarrow> period \<noteq> ''quarterly'' \<Longrightarrow>
   period \<noteq> ''yearly'' \<Longrightarrow> getSalesByPeriod period now ds = Inr []"
  by (simp add: getSalesByPeriod_def generatePeriods_def aggregate_Nil split: option.splits)

theorem unknown_period_empty_result_witness:
  "''daily'' \<noteq> ''weekly'' \<and> ''daily'' \<noteq> ''monthly'' \<and> ''daily'' \<noteq> ''quarterly''
   \<and> ''daily'' \<noteq> ''yearly''
   \<and> getSalesByPeriod ''daily'' nowMar15 (Some [dealJan31]) = Inr []"
  using unknown_period_empty_result [of "''daily''" nowMar15 "Some [dealJan31]"]
  by simp

text \<open>
  C3 as stated fails: the granularity \<open>daily\<close> does not give \<open>InvalidArgument\<close>.
\<close>

theorem unknown_period_counterexample:
  "getSalesByPeriod ''daily'' nowMar15 (Some [dealJan31]) \<noteq> Inl InvalidArgument"
  by (simp add: getSalesByPeriod_def)

text \<open>
  C5. The bucket ranges of a granularity should partition the covered window, so that
  a deal in the window is counted exactly once. In the code, two consecutive weekly
  ranges share their boundary instant: the deal created seven days before \<open>now\<close> to the
  millisecond is counted in Week 7 and in Week 8. The calendar ranges end at local
  midnight at the start of their last day: the deal created on 31 December 2023 at
  09:00 is counted in no yearly bucket, though the buckets of 2023 and 2024 are there.
\<close>

theorem buckets_overlap_and_gap:
  "getSalesByPeriod ''weekly'' nowJun10 (Some [dealJun3]) =
     Inr [\<lparr>pointName = ''Week 1'', pointValue = 0, pointCount = 0\<rparr>,
          \<lparr>pointName = ''Week 2'', pointValue = 0, pointCount = 0\<rparr>,
          \<lparr>pointName = ''Week 3'', pointValue = 0, pointCount = 0\<rparr>,
          \<lparr>pointName = ''Week 4'', pointValue = 0, pointCount = 0\<rparr>,
          \<lparr>pointName = ''Week 5'', pointValue = 0, pointCount = 0\<rparr>,
          \<lparr>pointName = ''Week 6'', pointValue = 0, pointCount = 0\<rparr>,
          \<lparr>pointName = ''Week 7'', pointValue = 50, pointCount = 1\<rparr>,
          \<lparr>pointName = ''Week 8'', pointValue = 50, pointCount = 1\<rparr>]
   \<and> getSalesByPeriod ''yearly'' nowMar15 (Some [dealDec31]) =
     Inr [\<lparr>pointName = ''2020'', pointValue = 0, pointCount = 0\<rparr>,
          \<lparr>pointName = ''2021'', pointValue = 0, pointCount = 0\<rparr>,
          \<lparr>pointName = ''2022'', pointValue = 0, pointCount = 0\<rparr>,
          \<lparr>pointName = ''2023'', pointValue = 0, pointCount = 0\<rparr>,
          \<lparr>pointName = ''2024'', pointValue = 0, pointCount = 0\<rparr>]"
proof
  show "getSalesByPeriod ''weekly'' nowJun10 (Some [dealJun3]) =
     Inr [\<lparr>pointName = ''Week 1'', pointValue = 0, pointCount = 0\<rparr>,
          \<lparr>pointName = ''Week 2'', pointValue = 0, pointCount = 0\<rparr>,
          \<lparr>pointName = ''Week 3'', pointValue = 0, pointCount = 0\<rparr>,
          \<lparr>pointName = ''Week 4'', pointValue = 0, pointCount = 0\<rparr>,
          \<lparr>pointName = ''Week 5'', pointValue = 0, pointCount = 0\<rparr>,
          \<lparr>pointName = ''Week 6'', pointValue = 0, pointCount = 0\<rparr>,
          \<lparr>pointName = ''Week 7'', pointValue = 50, pointCount = 1\<rparr>,
          \<lparr>pointName = ''Week 8'', pointValue = 50, pointCount = 1\<rparr>]"
    by (simp add: nowJun10_def dealJun3_def date_eval period_eval)
  show "getSalesByPeriod ''yearly'' nowMar15 (Some [dealDec31]) =
     Inr [\<lparr>pointName = ''2020'', pointValue = 0, pointCount = 0\<rparr>,
          \<lparr>pointName = ''2021'', pointValue = 0, pointCount = 0\<rparr>,
          \<lparr>pointName = ''2022'', pointValue = 0, pointCount = 0\<rparr>,
          \<lparr>pointName = ''2023'', pointValue = 0, pointCount = 0\<rparr>,
          \<lparr>pointName = ''2024'', pointValue = 0, pointCount = 0\<rparr>]"
    by (simp add: nowMar15_def dealDec31_def date_eval period_eval)
qed

text \<open>
  C10. For a \<open>now\<close> whose day of the month is at most 28, the monthly granularity
  generates exactly six buckets: those of the six consecutive calendar months that end
  with the month of \<open>now\<close>, oldest first, each starting on the first day of its month
  (so the six start dates are distinct), and for a non-empty deal set the result has
  the six month names in that order. The bound on the day cannot be dropped: for
  \<open>now\<close> = 31 March 2024 the start dates are not distinct.
\<close>

theorem monthly_six_calendar_months:
  assumes "validDate now" and "getDate now \<le> 28"
  shows "generatePeriods ''monthly'' now =
           map (\<lambda>i. monthBucket (getFullYear now * 12 + getMonth now - i)) [5, 4, 3, 2, 1, 0]
         \<and> distinct (map startDate (generatePeriods ''monthly'' now))
         \<and> (ds \<noteq> [] \<longrightarrow>
              (\<exists>r. getSalesByPeriod ''monthly'' now (Some ds) = Inr r
                   \<and> map pointName r =
                       map (\<lambda>i. monthShort (getMonth now - i)) [5, 4, 3, 2, 1, 0]))
         \<and> \<not> distinct (map startDate (generatePeriods ''monthly'' nowMar31))"
proof -
  let ?n = "getFullYear now * 12 + getMonth now"
  have gen: "generatePeriods ''monthly'' now = map (\<lambda>i. monthBucket (?n - i)) [5, 4, 3, 2, 1, 0]"
    using assms by (simp add: generatePeriods_def pushDown_five monthlyPeriod_early)
  have "distinct (map (\<lambda>i. ?n - i) [5, 4, 3, 2, 1, 0])"
    by simp
  moreover have "inj_on (\<lambda>k. startDate (monthBucket k)) (set (map (\<lambda>i. ?n - i) [5, 4, 3, 2, 1, 0]))"
    by (rule inj_on_subset [OF startDate_monthBucket_inj]) simp
  ultimately have
    "distinct (map (\<lambda>k. startDate (monthBucket k)) (map (\<lambda>i. ?n - i) [5, 4, 3, 2, 1, 0]))"
    by (simp only: distinct_map)
  then have dist: "distinct (map startDate (generatePeriods ''monthly'' now))"
    by (simp add: gen comp_def)
  have names: "map pointName (map cleanUp (aggregate ds (generatePeriods ''monthly'' now))) =
               map (\<lambda>i. monthShort (getMonth now - i)) [5, 4, 3, 2, 1, 0]"
  proof -
    have "map pointName (map cleanUp (aggregate ds (generatePeriods ''monthly'' now))) =
          map pname (aggregate ds (generatePeriods ''monthly'' now))"
      by (simp add: cleanUp_def comp_def)
    also have "\<dots> = map pname (generatePeriods ''monthly'' now)"
      by (rule pname_aggregate)
    also have "\<dots> = map (\<lambda>i. monthShort (getMonth now - i)) [5, 4, 3, 2, 1, 0]"
      by (simp add: gen monthBucket_def monthShort_def month_index_split)
    finally show ?thesis .
  qed
  have dup: "\<not> distinct (map startDate (generatePeriods ''monthly'' nowMar31))"
    by (simp add: nowMar31_def date_eval generatePeriods_def pushDown_five monthlyPeriod_def)
  show ?thesis
    using gen dist names dup by (simp add: getSalesByPeriod_def)
qed

theorem monthly_six_calendar_months_witness:
  "validDate nowMar15 \<and> getDate nowMar15 \<le> 28 \<and> [dealJan31] \<noteq> []
   \<and> map pname (generatePeriods ''monthly'' nowMar15) =
       [''Oct'', ''Nov'', ''Dec'', ''Jan'', ''Feb'', ''Mar'']
   \<and> map startDate (generatePeriods ''monthly'' nowMar15) =
       [dateAt 2023 9 1 0, dateAt 2023 10 1 0, dateAt 2023 11 1 0,
        dateAt 2024 0 1 0, dateAt 2024 1 1 0, dateAt 2024 2 1 0]
   \<and> (\<exists>r. getSalesByPeriod ''monthly'' nowMar15 (Some [dealJan31]) = Inr r
          \<and> map pointName r = [''Oct'', ''Nov'', ''Dec'', ''Jan'', ''Feb'', ''Mar''])"
proof -
  have v: "validDate nowMar15" and d: "getDate nowMar15 \<le> 28"
    by (simp_all add: nowMar15_def date_eval)
  show ?thesis
    using monthly_six_calendar_months [OF v d, of "[dealJan31]"] v d
    by (simp add: monthBucket_def monthShort_def nowMar15_def dateAt_def)
qed

section \<open>The Metric Aggregator\<close>

text \<open>
  C4, as amended. Every call of \<open>getDashboardStats\<close> reads the clock exactly twice.
  The first reading is \<open>now\<close>: the customer, deal and meeting month-over-month
  comparisons and the count of upcoming meetings are the same for every clock with that
  first reading. The second reading is \<open>todayDate\<close>: the count of tasks due today is
  the same for every clock with that second reading.
\<close>

theorem clock_two_readings:
  "snd (getDashboardStats clk db n) = n + 2
   \<and> (clk1 n = clk n \<longrightarrow>
         customerGrowth (fst (getDashboardStats clk1 db n)) =
           customerGrowth (fst (getDashboardStats clk db n))
       \<and> dealChange (fst (getDashboardStats clk1 db n)) =
           dealChange (fst (getDashboardStats clk db n))
       \<and> meetingChange (fst (getDashboardStats clk1 db n)) =
           meetingChange (fst (getDashboardStats clk db n))
       \<and> upcomingMeetings (fst (getDashboardStats clk1 db n)) =
           upcomingMeetings (fst (getDashboardStats clk db n)))
   \<and> (clk2 (Suc n) = clk (Suc n) \<longrightarrow>
         tasksDueToday (fst (getDashboardStats clk2 db n)) =
           tasksDueToday (fst (getDashboardStats clk db n)))"
  by (simp add: getDashboardStats_def Let_def)

theorem clock_two_readings_witness:
  "snd (getDashboardStats clkMidnight dbTask 0) = 2
   \<and> (\<lambda>k. clkMidnight 0) 0 = clkMidnight 0
   \<and> upcomingMeetings (fst (getDashboardStats (\<lambda>k. clkMidnight 0) dbTask 0)) =
       upcomingMeetings (fst (getDashboardStats clkMidnight dbTask 0))
   \<and> (\<lambda>k. clkMidnight 1) (Suc 0) = clkMidnight (Suc 0)
   \<and> tasksDueToday (fst (getDashboardStats (\<lambda>k. clkMidnight 1) dbTask 0)) =
       tasksDueToday (fst (getDashboardStats clkMidnight dbTask 0))"
  using clock_two_readings [of clkMidnight dbTask 0 "\<lambda>k. clkMidnight 0" "\<lambda>k. clkMidnight 1"]
  by simp

text \<open>
  C4 as stated fails: with a first reading just before midnight and a second reading
  just after it, the clock has been read twice after the call, and the count of tasks
  due today (1: the task is due on the day of the second reading) is not the count
  relative to \<open>now\<close>, which a clock that repeats its first reading gives (0).
\<close>

theorem clock_read_once_counterexample:
  "snd (getDashboardStats clkMidnight dbTask 0) \<noteq> 1
   \<and> tasksDueToday (fst (getDashboardStats clkMidnight dbTask 0)) = 1
   \<and> tasksDueToday (fst (getDashboardStats (\<lambda>k. clkMidnight 0) dbTask 0)) = 0"
  by (simp add: getDashboardStats_def Let_def clkMidnight_def dbTask_def date_eval sql_eval)

text \<open>
  C6. \<open>customerGrowth\<close> should be \<open>(current - previous) / previous * 100\<close>, with
  \<open>previous\<close> the number of customers created in the previous month, from its first
  day through its last day. The code ends the previous month at local midnight at the
  start of its last day (\<open>lastDayPreviousMonth = new Date(year, month, 0)\<close>): with
  \<open>now\<close> = 15 March 2024, a customer created on 29 February at noon lies in the
  previous month but is not counted. With that customer and two customers created in
  March (all before \<open>now\<close>), the formula gives (2 - 1) / 1 * 100 = 100, and the code
  finds \<open>previous\<close> = 0 and returns 0.
\<close>

theorem customerGrowth_previous_month_last_day_dropped:
  "map custCreatedAt (customers dbLastDay) =
     [dateAt 2024 1 29 43200000, dateAt 2024 2 5 0, dateAt 2024 2 12 0]
   \<and> inPreviousMonth nowMar15 (dateAt 2024 1 29 43200000)
   \<and> createdInPreviousMonth nowMar15 (customers dbLastDay) = 1
   \<and> createdInCurrentMonth nowMar15 (customers dbLastDay) = 2
   \<and> specCustomerGrowth nowMar15 (customers dbLastDay) = Fin 100
   \<and> customerGrowth (fst (getDashboardStats (\<lambda>k. nowMar15) dbLastDay 0)) = Fin 0"
  by (simp add: getDashboardStats_def Let_def nowMar15_def dbLastDay_def date_eval sql_eval
      specCustomerGrowth_def growthPercent_def createdInPreviousMonth_def
      createdInCurrentMonth_def inPreviousMonth_def firstDayOfCurrentMonth_def)

text \<open>
  C7. For a store with no deals, \<open>avgDealSize\<close> and \<open>winRate\<close> are 0. In every store
  both are finite numbers: the two divisions are made only behind the test
  \<open>totalDeals === 0\<close>, so neither NaN nor an infinity (what a zero denominator gives)
  can come out.
\<close>

theorem no_deals_avg_and_winRate_zero:
  "(length (deals db) = 0 \<longrightarrow>
      avgDealSize (fst (getDashboardStats clk db n)) = Fin 0
      \<and> winRate (fst (getDashboardStats clk db n)) = Fin 0)
   \<and> (\<exists>a w. avgDealSize (fst (getDashboardStats clk db n)) = Fin a
            \<and> winRate (fst (getDashboardStats clk db n)) = Fin w)"
  by (simp add: getDashboardStats_def Let_def cnt_def countWhere_def roundDecimals_zero)

theorem no_deals_avg_and_winRate_zero_witness:
  "length (deals dbNoDeals) = 0
   \<and> avgDealSize (fst (getDashboardStats (\<lambda>k. nowMar15) dbNoDeals 0)) = Fin 0
   \<and> winRate (fst (getDashboardStats (\<lambda>k. nowMar15) dbNoDeals 0)) = Fin 0"
proof -
  have e: "length (deals dbNoDeals) = 0"
    by (simp add: dbNoDeals_def)
  show ?thesis
    using no_deals_avg_and_winRate_zero [of dbNoDeals "\<lambda>k. nowMar15" 0] e by simp
qed



text \<open>
  C9. The \<open>customerRetentionRate\<close> returned by \<open>getDashboardStats\<close> is 0 or 100.
  With \<open>endCustomers\<close> the number of customers and \<open>newCustomers\<close> the number of
  customers created on or after the first day of the current month, it is 0 when
  \<open>startingCustomers = endCustomers - newCustomers\<close> is 0, and exactly 100 otherwise:
  the numerator is the denominator itself. For a valid clock reading this reads: 0 when
  every customer was created on or after the first day of the month of \<open>now\<close>, and 100
  as soon as one customer was not.
\<close>

theorem customerRetentionRate_zero_or_hundred:
  "(customerRetentionRate (fst (getDashboardStats clk db n)) = Fin 0
    \<or> customerRetentionRate (fst (getDashboardStats clk db n)) = Fin 100)
   \<and> customerRetentionRate (fst (getDashboardStats clk db n)) =
       (if int (length (customers db))
            - int (length (filter
                (\<lambda>c. dateLe (newDate (getFullYear (clk n)) (getMonth (clk n)) 1)
                             (custCreatedAt c)) (customers db))) = 0
        then Fin 0 else Fin 100)
   \<and> (validDate (clk n) \<longrightarrow>
        customerRetentionRate (fst (getDashboardStats clk db n)) =
          (if list_all (\<lambda>c. dateLe (firstDayOfCurrentMonth (clk n)) (custCreatedAt c))
                (customers db)
           then Fin 0 else Fin 100))"
proof -
  let ?first = "newDate (getFullYear (clk n)) (getMonth (clk n)) 1"
  let ?new = "filter (\<lambda>c. dateLe ?first (custCreatedAt c)) (customers db)"
  let ?r = "customerRetentionRate (fst (getDashboardStats clk db n))"
  have exact: "?r = (if int (length (customers db)) - int (length ?new) = 0
                     then Fin 0 else Fin 100)"
    by (simp add: getDashboardStats_def Let_def jsSub_def countWhere_def gte_def
        roundDecimals_zero roundDecimals_hundred)
  have "(int (length (customers db)) - int (length ?new) = 0) =
        list_all (\<lambda>c. dateLe ?first (custCreatedAt c)) (customers db)"
    using length_filter_all [of "\<lambda>c. dateLe ?first (custCreatedAt c)" "customers db"]
    by auto
  then have valid: "?r = (if list_all (\<lambda>c. dateLe (firstDayOfCurrentMonth (clk n))
                                          (custCreatedAt c)) (customers db)
                          then Fin 0 else Fin 100)" if "validDate (clk n)"
    using exact firstDayCurrentMonth_code [OF that] by simp
  from exact have "?r = Fin 0 \<or> ?r = Fin 100"
    by (simp split: if_splits)
  then show ?thesis
    using exact valid by blast
qed

theorem customerRetentionRate_zero_or_hundred_witness:
  "validDate nowMar15
   \<and> int (length (customers dbLastDay))
       - int (length (filter (\<lambda>c. dateLe (newDate 2024 2 1) (custCreatedAt c))
                        (customers dbLastDay))) = 1
   \<and> customerRetentionRate (fst (getDashboardStats (\<lambda>k. nowMar15) dbLastDay 0)) = Fin 100
   \<and> int (length (customers dbMarchOnly))
       - int (length (filter (\<lambda>c. dateLe (newDate 2024 2 1) (custCreatedAt c))
                        (customers dbMarchOnly))) = 0
   \<and> customerRetentionRate (fst (getDashboardStats (\<lambda>k. nowMar15) dbMarchOnly 0)) = Fin 0"
proof -
  have v: "validDate nowMar15"
    by (simp add: nowMar15_def date_eval)
  have y: "getFullYear nowMar15 = 2024" and m: "getMonth nowMar15 = 2"
    by (simp_all add: nowMar15_def dateAt_def)
  have a: "int (length (customers dbLastDay))
       - int (length (filter (\<lambda>c. dateLe (newDate 2024 2 1) (custCreatedAt c))
                        (customers dbLastDay))) = 1"
    by (simp add: dbLastDay_def date_eval)
  have b: "int (length (customers dbMarchOnly))
       - int (length (filter (\<lambda>c. dateLe (newDate 2024 2 1) (custCreatedAt c))
                        (customers dbMarchOnly))) = 0"
    by (simp add: dbMarchOnly_def date_eval)
  from customerRetentionRate_zero_or_hundred [of "\<lambda>k. nowMar15" dbLastDay 0] a
  have "customerRetentionRate (fst (getDashboardStats (\<lambda>k. nowMar15) dbLastDay 0)) = Fin 100"
    by (simp add: y m)
  moreover
  from customerRetentionRate_zero_or_hundred [of "\<lambda>k. nowMar15" dbMarchOnly 0] b
  have "customerRetentionRate (fst (getDashboardStats (\<lambda>k. nowMar15) dbMarchOnly 0)) = Fin 0"
    by (simp add: y m)
  ultimately show ?thesis
    using v a b by simp
qed

end
